theory Spec2Isabelle
  imports Complex_Main
begin

section \<open>Entity model (types.ts)\<close>

text \<open>
  An activity-log entry and an account record, field by field as \<^verbatim>\<open>types.ts\<close> declares
  them. A field marked \<^verbatim>\<open>?\<close> in the interface is an \<open>option\<close>; \<open>None\<close> is the absent
  key (\<^verbatim>\<open>undefined\<close>). A JavaScript \<^verbatim>\<open>number\<close> is a \<open>real\<close> (no NaN, no infinities).
  A JavaScript string is the list of its code units, and a \<open>char\<close> is a code unit below
  256: the strings of the model are those written in the first 256 code points.
  The field \<^verbatim>\<open>id\<close> is called \<open>ident\<close> here, since \<open>id\<close> is the identity function of HOL,
  and \<^verbatim>\<open>notes\<close> is \<open>notes'\<close>, since \<open>notes\<close> is a keyword.
\<close>

record ActivityLog =
  date :: string
  action :: string
  details :: "string option"

datatype Platform = Twitter | Instagram | LinkedIn | TikTok

datatype Status = Active | Shadowbanned | Suspended | Verified

record UserAccount =
  ident :: string
  username :: string
  platform :: Platform
  followers :: real
  engagementRate :: real
  status :: Status
  lastActive :: string
  bio :: string
  category :: string
  avatar :: string
  realName :: "string option"
  email :: "string option"
  password :: "string option"
  twoFactorSecret :: "string option"
  phone :: "string option"
  website :: "string option"
  country :: "string option"
  tags :: "string list option"
  isFavorite :: "bool option"
  isArchived :: "bool option"
  accountManager :: "string option"
  targetAudience :: "string option"
  lastPostedDate :: "string option"
  creationDate :: "string option"
  notes' :: "string option"
  history :: "ActivityLog list option"

text \<open>The string a platform or status value is at run time.\<close>

fun platform_str :: "Platform \<Rightarrow> string" where
  "platform_str Twitter = ''Twitter''"
| "platform_str Instagram = ''Instagram''"
| "platform_str LinkedIn = ''LinkedIn''"
| "platform_str TikTok = ''TikTok''"

fun status_str :: "Status \<Rightarrow> string" where
  "status_str Active = ''Active''"
| "status_str Shadowbanned = ''Shadowbanned''"
| "status_str Suspended = ''Suspended''"
| "status_str Verified = ''Verified''"

section \<open>JavaScript primitives used by the table\<close>

text \<open>Truthiness of an optional boolean: \<^verbatim>\<open>undefined\<close> is falsy.\<close>

fun truthy_bool :: "bool option \<Rightarrow> bool" where
  "truthy_bool None = False"
| "truthy_bool (Some b) = b"

text \<open>
  \<^verbatim>\<open>toLowerCase\<close>: below 256 the upper-case letters are 65 to 90, 192 to 214 and 216 to
  222, each 32 below its lower-case letter. \<^verbatim>\<open>startsWith\<close>, and \<^verbatim>\<open>includes\<close>
  (\<open>str_includes\<close>: a contiguous substring, the empty string included everywhere).
\<close>

definition lower_char :: "char \<Rightarrow> char" where
  "lower_char c =
     (let n = (of_char c :: nat)
      in if (65 \<le> n \<and> n \<le> 90) \<or> (192 \<le> n \<and> n \<le> 214) \<or> (216 \<le> n \<and> n \<le> 222)
         then char_of (n + 32) else c)"

definition toLowerCase :: "string \<Rightarrow> string" where
  "toLowerCase s = map lower_char s"

fun startsWith :: "string \<Rightarrow> string \<Rightarrow> bool" where
  "startsWith s [] = True"
| "startsWith [] (p # ps) = False"
| "startsWith (c # cs) (p # ps) = (c = p \<and> startsWith cs ps)"

fun str_includes :: "string \<Rightarrow> string \<Rightarrow> bool" where
  "str_includes [] p = (p = [])"
| "str_includes (c # cs) p = (startsWith (c # cs) p \<or> str_includes cs p)"

text \<open>The relational operator \<^verbatim>\<open><\<close> on two strings: lexicographic on the code units.\<close>

fun str_lt :: "string \<Rightarrow> string \<Rightarrow> bool" where
  "str_lt [] [] = False"
| "str_lt [] (y # ys) = True"
| "str_lt (x # xs) [] = False"
| "str_lt (x # xs) (y # ys) =
     (if (of_char x :: nat) < of_char y then True
      else if (of_char y :: nat) < of_char x then False
      else str_lt xs ys)"

section \<open>The table's view: filter, search, favourites, sort (AccountTable.tsx, filteredData)\<close>

datatype view_mode = ViewActive | ViewArchived

datatype direction = Asc | Desc

text \<open>
  The keys of \<^verbatim>\<open>UserAccount\<close> whose values are strings or numbers. The table header only
  ever sorts by \<^verbatim>\<open>username\<close> and \<^verbatim>\<open>accountManager\<close>; the comparator itself is written for
  any key. The four keys holding arrays or booleans (\<^verbatim>\<open>tags\<close>, \<^verbatim>\<open>history\<close>,
  \<^verbatim>\<open>isFavorite\<close>, \<^verbatim>\<open>isArchived\<close>) are left out of the model.
\<close>

datatype sort_key =
    K_id | K_username | K_platform | K_followers | K_engagementRate | K_status
  | K_lastActive | K_bio | K_category | K_avatar | K_realName | K_email | K_password
  | K_twoFactorSecret | K_phone | K_website | K_country | K_accountManager
  | K_targetAudience | K_lastPostedDate | K_creationDate | K_notes

datatype js_val = JStr string | JNum real

text \<open>\<^verbatim>\<open>a[key]\<close>: the field's value, \<open>None\<close> for \<^verbatim>\<open>undefined\<close>.\<close>

fun getField :: "sort_key \<Rightarrow> UserAccount \<Rightarrow> js_val option" where
  "getField K_id a = Some (JStr (ident a))"
| "getField K_username a = Some (JStr (username a))"
| "getField K_platform a = Some (JStr (platform_str (platform a)))"
| "getField K_followers a = Some (JNum (followers a))"
| "getField K_engagementRate a = Some (JNum (engagementRate a))"
| "getField K_status a = Some (JStr (status_str (status a)))"
| "getField K_lastActive a = Some (JStr (lastActive a))"
| "getField K_bio a = Some (JStr (bio a))"
| "getField K_category a = Some (JStr (category a))"
| "getField K_avatar a = Some (JStr (avatar a))"
| "getField K_realName a = map_option JStr (realName a)"
| "getField K_email a = map_option JStr (email a)"
| "getField K_password a = map_option JStr (password a)"
| "getField K_twoFactorSecret a = map_option JStr (twoFactorSecret a)"
| "getField K_phone a = map_option JStr (phone a)"
| "getField K_website a = map_option JStr (website a)"
| "getField K_country a = map_option JStr (country a)"
| "getField K_accountManager a = map_option JStr (accountManager a)"
| "getField K_targetAudience a = map_option JStr (targetAudience a)"
| "getField K_lastPostedDate a = map_option JStr (lastPostedDate a)"
| "getField K_creationDate a = map_option JStr (creationDate a)"
| "getField K_notes a = map_option JStr (notes' a)"

text \<open>\<^verbatim>\<open>v ?? ''\<close>.\<close>

fun orEmpty :: "js_val option \<Rightarrow> js_val" where
  "orEmpty None = JStr []"
| "orEmpty (Some v) = v"

text \<open>
  \<^verbatim>\<open>x < y\<close> on the two values of one key. Two strings are compared as strings, two
  numbers as numbers. A string against a number is converted to a number first: the
  empty string (the stand-in for a missing value) is 0; any other string is taken as not
  numeric (NaN), for which every comparison is false. By the interface no key mixes
  non-empty strings with numbers.
\<close>

fun toNumber :: "js_val \<Rightarrow> real option" where
  "toNumber (JNum n) = Some n"
| "toNumber (JStr s) = (if s = [] then Some 0 else None)"

fun js_lt :: "js_val \<Rightarrow> js_val \<Rightarrow> bool" where
  "js_lt (JStr s) (JStr t) = str_lt s t"
| "js_lt x y =
     (case (toNumber x, toNumber y) of (Some m, Some n) \<Rightarrow> m < n | _ \<Rightarrow> False)"

type_synonym SortConfig = "(sort_key \<times> direction) option"

text \<open>The comparator passed to \<^verbatim>\<open>result.sort\<close> (lines 70 to 76).\<close>

definition compareBy :: "sort_key \<times> direction \<Rightarrow> UserAccount \<Rightarrow> UserAccount \<Rightarrow> int" where
  "compareBy cfg a b =
     (let aVal = orEmpty (getField (fst cfg) a);
          bVal = orEmpty (getField (fst cfg) b)
      in if js_lt aVal bVal then (if snd cfg = Asc then - 1 else 1)
         else if js_lt bVal aVal then (if snd cfg = Asc then 1 else - 1)
         else 0)"

text \<open>
  \<^verbatim>\<open>Array.prototype.sort\<close> with a comparator: the language standard requires a stable
  sort, and for a comparator that is a consistent ordering every stable sort returns the
  same array. The model is the stable insertion sort: an element is put in front of the
  first one it does not compare greater than.
\<close>

fun insert_cmp :: "('a \<Rightarrow> 'a \<Rightarrow> int) \<Rightarrow> 'a \<Rightarrow> 'a list \<Rightarrow> 'a list" where
  "insert_cmp cmp x [] = [x]"
| "insert_cmp cmp x (y # ys) =
     (if cmp x y \<le> 0 then x # y # ys else y # insert_cmp cmp x ys)"

definition js_sort :: "('a \<Rightarrow> 'a \<Rightarrow> int) \<Rightarrow> 'a list \<Rightarrow> 'a list" where
  "js_sort cmp xs = foldr (insert_cmp cmp) xs []"

definition in_view :: "view_mode \<Rightarrow> UserAccount \<Rightarrow> bool" where
  "in_view vm item =
     (if vm = ViewActive then \<not> truthy_bool (isArchived item) else truthy_bool (isArchived item))"

text \<open>
  \<^verbatim>\<open>item.f && item.f.toLowerCase().includes(lower)\<close> for an optional string \<^verbatim>\<open>f\<close>:
  false when the field is absent or the empty string.
\<close>

fun opt_includes :: "string option \<Rightarrow> string \<Rightarrow> bool" where
  "opt_includes None lower = False"
| "opt_includes (Some s) lower = (s \<noteq> [] \<and> str_includes (toLowerCase s) lower)"

definition matches :: "string \<Rightarrow> UserAccount \<Rightarrow> bool" where
  "matches lower item =
     (str_includes (toLowerCase (username item)) lower
      \<or> str_includes (toLowerCase (platform_str (platform item))) lower
      \<or> opt_includes (realName item) lower
      \<or> opt_includes (email item) lower
      \<or> opt_includes (accountManager item) lower)"

definition filteredData ::
  "UserAccount list \<Rightarrow> view_mode \<Rightarrow> string \<Rightarrow> bool \<Rightarrow> SortConfig \<Rightarrow> UserAccount list" where
  "filteredData data viewMode searchTerm showFavoritesOnly sortConfig =
     (let r1 = filter (in_view viewMode) data;
          r2 = (if searchTerm \<noteq> [] then filter (matches (toLowerCase searchTerm)) r1 else r1);
          r3 = (if showFavoritesOnly then filter (\<lambda>item. truthy_bool (isFavorite item)) r2
                else r2)
      in case sortConfig of None \<Rightarrow> r3 | Some cfg \<Rightarrow> js_sort (compareBy cfg) r3)"

section \<open>Pagination (lines 81, 82 and the footer, lines 304 to 307)\<close>

definition ITEMS_PER_PAGE :: nat where
  "ITEMS_PER_PAGE = 10"

text \<open>\<^verbatim>\<open>slice(start, end)\<close> with non-negative bounds.\<close>

definition slice :: "'a list \<Rightarrow> nat \<Rightarrow> nat \<Rightarrow> 'a list" where
  "slice xs start end' = take (end' - start) (drop start xs)"

definition paginatedData :: "UserAccount list \<Rightarrow> nat \<Rightarrow> UserAccount list" where
  "paginatedData view currentPage =
     slice view ((currentPage - 1) * ITEMS_PER_PAGE) (currentPage * ITEMS_PER_PAGE)"

definition totalPages :: "UserAccount list \<Rightarrow> nat" where
  "totalPages view = nat \<lceil>real (length view) / real ITEMS_PER_PAGE\<rceil>"

text \<open>\<^verbatim>\<open>totalPages || 1\<close>, the count the footer prints and the bound of the next button.\<close>

definition shownTotalPages :: "UserAccount list \<Rightarrow> nat" where
  "shownTotalPages view = (if totalPages view = 0 then 1 else totalPages view)"

section \<open>Selection (toggleSelectAll, toggleSelectOne)\<close>

text \<open>
  A \<^verbatim>\<open>Set<string>\<close> is the list of its elements in insertion order, without
  duplicates: \<^verbatim>\<open>size\<close> is the length, \<^verbatim>\<open>has\<close> is membership, \<^verbatim>\<open>add\<close> appends an
  element that is not yet there, \<^verbatim>\<open>new Set(xs)\<close> adds the elements of \<open>xs\<close> one by one.
\<close>

definition set_add :: "string list \<Rightarrow> string \<Rightarrow> string list" where
  "set_add s x = (if x \<in> set s then s else s @ [x])"

definition new_Set :: "string list \<Rightarrow> string list" where
  "new_Set xs = foldl set_add [] xs"

definition toggleSelectAll :: "string list \<Rightarrow> UserAccount list \<Rightarrow> string list" where
  "toggleSelectAll selectedIds page =
     (if length selectedIds = length page then []
      else new_Set (map ident page))"

definition toggleSelectOne :: "string list \<Rightarrow> string \<Rightarrow> string list" where
  "toggleSelectOne selectedIds i =
     (if i \<in> set selectedIds then removeAll i selectedIds else set_add selectedIds i)"

text \<open>
  The view state of the table (the \<^verbatim>\<open>useState\<close> cells of lines 23 to 29 that the view
  depends on) and its setters. The page number starts at 1 and the two page buttons keep
  it at 1 or above.
\<close>

record TableState =
  searchTerm :: string
  selectedIds :: "string list"
  currentPage :: nat
  viewMode :: view_mode
  sortConfig :: SortConfig
  showFavoritesOnly :: bool

definition initialTableState :: TableState where
  "initialTableState =
     \<lparr>searchTerm = [], selectedIds = [], currentPage = 1, viewMode = ViewActive,
      sortConfig = None, showFavoritesOnly = False\<rparr>"



definition handleSort :: "sort_key \<Rightarrow> TableState \<Rightarrow> TableState" where
  "handleSort key st =
     st\<lparr>sortConfig :=
          Some (key, if sortConfig st = Some (key, Asc) then Desc else Asc)\<rparr>"

text \<open>The view and the page that a table state shows of a collection.\<close>

definition viewOf :: "UserAccount list \<Rightarrow> TableState \<Rightarrow> UserAccount list" where
  "viewOf data st =
     filteredData data (viewMode st) (searchTerm st) (showFavoritesOnly st) (sortConfig st)"

definition pageOf :: "UserAccount list \<Rightarrow> TableState \<Rightarrow> UserAccount list" where
  "pageOf data st = paginatedData (viewOf data st) (currentPage st)"

section \<open>The entry form (initialFormState, openAddModal, openEditModal, handleSubmit)\<close>

text \<open>
  The object held in \<^verbatim>\<open>formState\<close>. Its first twenty fields are those of
  \<^verbatim>\<open>initialFormState\<close>, always present. \<^verbatim>\<open>openEditModal\<close> spreads the account over them,
  which brings six more keys along: \<^verbatim>\<open>id\<close>, \<^verbatim>\<open>lastActive\<close>, \<^verbatim>\<open>avatar\<close>, \<^verbatim>\<open>isFavorite\<close>,
  \<^verbatim>\<open>isArchived\<close> and \<^verbatim>\<open>history\<close>; they are absent (\<open>None\<close>) in the add form. The objects
  that \<^verbatim>\<open>handleSubmit\<close> passes on are spreads of \<^verbatim>\<open>formState\<close> with some keys replaced, so
  they have the same shape.
\<close>

record FormState =
  f_username :: string
  f_platform :: Platform
  f_followers :: real
  f_engagementRate :: real
  f_status :: Status
  f_bio :: string
  f_category :: string
  f_realName :: string
  f_email :: string
  f_password :: string
  f_twoFactorSecret :: string
  f_phone :: string
  f_website :: string
  f_country :: string
  f_tags :: "string list"
  f_accountManager :: string
  f_targetAudience :: string
  f_lastPostedDate :: string
  f_creationDate :: string
  f_notes :: string
  f_id :: "string option"
  f_lastActive :: "string option"
  f_avatar :: "string option"
  f_isFavorite :: "bool option"
  f_isArchived :: "bool option"
  f_history :: "ActivityLog list option"

definition initialFormState :: FormState where
  "initialFormState =
     \<lparr>f_username = [], f_platform = Twitter, f_followers = 0, f_engagementRate = 0,
      f_status = Active, f_bio = [], f_category = [], f_realName = [], f_email = [],
      f_password = [], f_twoFactorSecret = [], f_phone = [], f_website = [], f_country = [],
      f_tags = [], f_accountManager = [], f_targetAudience = [], f_lastPostedDate = [],
      f_creationDate = [], f_notes = [],
      f_id = None, f_lastActive = None, f_avatar = None, f_isFavorite = None,
      f_isArchived = None, f_history = None\<rparr>"


text \<open>\<^verbatim>\<open>xs.join(sep)\<close>.\<close>

fun join :: "string \<Rightarrow> string list \<Rightarrow> string" where
  "join sep [] = []"
| "join sep [x] = x"
| "join sep (x # y # ys) = x @ sep @ join sep (y # ys)"

datatype modal_mode = Add | Edit

text \<open>What the modal holds: its mode, the form object and the text of the tag input.\<close>

record ModalState =
  modalMode :: modal_mode
  formState :: FormState
  tagsInput :: string

definition openAddModal :: ModalState where
  "openAddModal = \<lparr>modalMode = Add, formState = initialFormState, tagsInput = []\<rparr>"


text \<open>
  \<^verbatim>\<open>split(',')\<close>, and \<^verbatim>\<open>trim\<close>, which strips white space and line terminators from both
  ends. Below 256 these are the code units 9 to 13 (tab, line feed, vertical tab, form
  feed, carriage return), 32 (space) and 160 (no-break space).
\<close>

fun split_on :: "char \<Rightarrow> string \<Rightarrow> string list" where
  "split_on c [] = [[]]"
| "split_on c (x # xs) =
     (if x = c then [] # split_on c xs
      else (case split_on c xs of [] \<Rightarrow> [[x]] | p # ps \<Rightarrow> (x # p) # ps))"

definition is_space :: "char \<Rightarrow> bool" where
  "is_space c = (let n = (of_char c :: nat) in n = 32 \<or> n = 160 \<or> (9 \<le> n \<and> n \<le> 13))"

definition trim :: "string \<Rightarrow> string" where
  "trim s = rev (dropWhile is_space (rev (dropWhile is_space s)))"

definition parseTags :: "string \<Rightarrow> string list" where
  "parseTags inp = filter (\<lambda>t. t \<noteq> []) (map trim (split_on CHR '','' inp))"

definition normalizeUsername :: "string \<Rightarrow> string" where
  "normalizeUsername u = (if startsWith u ''@'' then u else ''@'' @ u)"

text \<open>\<^verbatim>\<open>username.replace('@','')\<close> removes the first \<^verbatim>\<open>@\<close> only.\<close>

definition avatarUrl :: "string \<Rightarrow> string" where
  "avatarUrl u =
     ''https://ui-avatars.com/api/?name='' @ remove1 CHR ''@'' u
       @ ''&background=random&color=fff''"

text \<open>
  The request that \<^verbatim>\<open>handleSubmit\<close> issues: \<^verbatim>\<open>onAddAccount(payload)\<close> or
  \<^verbatim>\<open>onUpdateAccount(id, payload)\<close>, where \<^verbatim>\<open>id\<close> is \<^verbatim>\<open>undefined\<close> if the form object has
  none. \<open>now\<close> is the value of \<^verbatim>\<open>new Date().toISOString()\<close>.
\<close>

datatype intent =
    AddAccount (payloadOf: FormState)
  | UpdateAccount (targetOf: "string option") (payloadOf: FormState)

definition handleSubmit ::
  "UserAccount list \<Rightarrow> ModalState \<Rightarrow> string \<Rightarrow> intent" where
  "handleSubmit data m now =
     (let tags = parseTags (tagsInput m);
          username = normalizeUsername (f_username (formState m))
      in if modalMode m = Add then
           AddAccount ((formState m)
             \<lparr>f_username := username, f_tags := tags,
              f_avatar := Some (avatarUrl username),
              f_history := Some [\<lparr>date = now, action = ''Account Created'',
                                  details = Some ''Initial entry''\<rparr>]\<rparr>)
         else
           (let id' = f_id (formState m);
                currentAccount = find (\<lambda>d. Some (ident d) = id') data;
                historyEntry = \<lparr>date = now, action = ''Profile Updated'', details = None\<rparr>;
                prior = (case currentAccount of None \<Rightarrow> []
                         | Some c \<Rightarrow> (case history c of None \<Rightarrow> [] | Some h \<Rightarrow> h))
            in UpdateAccount id' ((formState m)
                 \<lparr>f_username := username, f_tags := tags,
                  f_history := Some (prior @ [historyEntry])\<rparr>)))"

text \<open>
  \<^verbatim>\<open>handleSubmit\<close> has no branch that returns without one of the two requests: it tests
  none of the form's values. The range and presence constraints of the source are
  attributes of the form's inputs (\<^verbatim>\<open>required\<close>, \<^verbatim>\<open>min\<close>, \<^verbatim>\<open>max\<close>, \<^verbatim>\<open>step\<close> at lines 482,
  494 and 498); what a browser does with them is not part of this model.
\<close>

section \<open>The backing store and the bulk actions (App component, AccountTable.handleBulk)\<close>

text \<open>
  The collection \<^verbatim>\<open>accounts\<close> of the document store is the list of its documents, each
  with its document id as \<open>ident\<close>; \<open>data\<close> is the copy the application holds. What lies
  outside the program is an environment: whether the database handle \<^verbatim>\<open>db\<close> exists,
  whether a user is signed in, and whether the store rejects a commit or a read for a
  reason of its own (network, permissions).
\<close>

record Env =
  db_ready :: bool
  isAuthenticated :: bool
  commit_rejected :: bool
  getDocs_rejected :: bool

record AppState =
  store :: "UserAccount list"
  data :: "UserAccount list"

datatype bulk_action = Archive | Restore | Delete

text \<open>\<^verbatim>\<open>fetchAccounts\<close>: the guard of its first line, then a full replace; a failed read is
  caught and leaves \<open>data\<close> as it was.\<close>

definition fetchAccounts :: "Env \<Rightarrow> AppState \<Rightarrow> AppState" where
  "fetchAccounts env st =
     (if \<not> db_ready env \<or> \<not> isAuthenticated env then st
      else if getDocs_rejected env then st
      else st\<lparr>data := store st\<rparr>)"

text \<open>
  A write batch is atomic. \<^verbatim>\<open>batch.delete\<close> of a document that does not exist is no
  error; \<^verbatim>\<open>batch.update\<close> of one that does not exist rejects the whole batch. \<open>None\<close> is a
  rejected commit. \<open>batch_update ids flag\<close> is the effect on one document of the updates
  \<^verbatim>\<open>{ isArchived }\<close> queued for the documents named in \<open>ids\<close>.
\<close>

definition batch_update :: "string list \<Rightarrow> bool \<Rightarrow> UserAccount \<Rightarrow> UserAccount" where
  "batch_update ids flag d = (if ident d \<in> set ids then d\<lparr>isArchived := Some flag\<rparr> else d)"

definition batch_commit ::
  "Env \<Rightarrow> bulk_action \<Rightarrow> string list \<Rightarrow> UserAccount list \<Rightarrow> UserAccount list option" where
  "batch_commit env act ids docs =
     (if commit_rejected env then None
      else if act = Delete then Some (filter (\<lambda>d. ident d \<notin> set ids) docs)
      else if list_all (\<lambda>i. i \<in> set (map ident docs)) ids then
        Some (map (batch_update ids (act = Archive)) docs)
      else None)"

text \<open>\<^verbatim>\<open>handleBulkAction\<close> of the App component: a rejected commit is caught (an alert) and
  nothing is read back.\<close>

definition handleBulkAction ::
  "Env \<Rightarrow> string list \<Rightarrow> bulk_action \<Rightarrow> AppState \<Rightarrow> AppState" where
  "handleBulkAction env ids act st =
     (if \<not> db_ready env then st
      else (case batch_commit env act ids (store st) of
              None \<Rightarrow> st
            | Some docs \<Rightarrow> fetchAccounts env (st\<lparr>store := docs\<rparr>)))"

text \<open>
  \<^verbatim>\<open>handleBulk\<close> of the table; \<open>confirmed\<close> is the answer to \<^verbatim>\<open>window.confirm\<close>, asked for a
  delete only. \<^verbatim>\<open>Array.from(selectedIds)\<close> is the list of the set's elements.
\<close>

definition handleBulk ::
  "Env \<Rightarrow> bool \<Rightarrow> bulk_action \<Rightarrow> TableState \<times> AppState \<Rightarrow> TableState \<times> AppState" where
  "handleBulk env confirmed act s =
     (if length (selectedIds (fst s)) = 0 then s
      else if act = Delete \<and> \<not> confirmed then s
      else ((fst s)\<lparr>selectedIds := []\<rparr>,
            handleBulkAction env (selectedIds (fst s)) act (snd s)))"

section \<open>CSV export (handleExport)\<close>

text \<open>
  \<^verbatim>\<open>Array.prototype.join\<close> writes \<^verbatim>\<open>undefined\<close> as the empty string; \<open>numStr\<close> is the
  conversion of a number to a string.
\<close>

fun cell :: "string option \<Rightarrow> string" where
  "cell None = []"
| "cell (Some s) = s"

definition exportSource :: "UserAccount list \<Rightarrow> TableState \<Rightarrow> UserAccount list" where
  "exportSource data' st =
     (if length (selectedIds st) > 0 then filter (\<lambda>d. ident d \<in> set (selectedIds st)) data'
      else viewOf data' st)"

definition csvHeaders :: "string list" where
  "csvHeaders = [''ID'', ''Username'', ''Platform'', ''Followers'', ''Manager'', ''Status'', ''Email'']"

definition csvRow :: "(real \<Rightarrow> string) \<Rightarrow> UserAccount \<Rightarrow> string" where
  "csvRow numStr u =
     join '','' [ident u, username u, platform_str (platform u), numStr (followers u),
                cell (accountManager u), status_str (status u), cell (email u)]"

definition csvLines :: "(real \<Rightarrow> string) \<Rightarrow> UserAccount list \<Rightarrow> TableState \<Rightarrow> string list" where
  "csvLines numStr data' st =
     join '','' csvHeaders # map (csvRow numStr) (exportSource data' st)"

text \<open>The text of the downloaded file.\<close>

definition handleExport :: "(real \<Rightarrow> string) \<Rightarrow> UserAccount list \<Rightarrow> TableState \<Rightarrow> string" where
  "handleExport numStr data' st = join [CHR 0x0A] (csvLines numStr data' st)"

section \<open>The AI client (geminiService.ts) and runAudit\<close>

text \<open>
  A call that may throw. The response of \<^verbatim>\<open>generateContent\<close> is read at two places only:
  \<^verbatim>\<open>response.text\<close> and the grounding chunks of the first candidate, each possibly
  \<^verbatim>\<open>undefined\<close>. The model endpoint and \<^verbatim>\<open>JSON.parse\<close> are parameters; \<^verbatim>\<open>JSON.parse\<close>
  throws on text that is not JSON and may return \<^verbatim>\<open>null\<close> (\<open>Returns None\<close>).
\<close>

datatype 'a outcome = Throws | Returns 'a

record 'c GenResponse =
  resp_text :: "string option"
  groundingChunks :: "'c list option"

record 'c Trends =
  trends_text :: string
  sources :: "'c list"

definition analyzeAccount ::
  "(UserAccount \<Rightarrow> 'c GenResponse outcome) \<Rightarrow> (string \<Rightarrow> 'j option outcome)
     \<Rightarrow> UserAccount \<Rightarrow> 'j option" where
  "analyzeAccount generateContent JSON_parse account =
     (case generateContent account of
        Throws \<Rightarrow> None
      | Returns response \<Rightarrow>
          (case resp_text response of
             None \<Rightarrow> None
           | Some t \<Rightarrow>
               if t = [] then None
               else (case JSON_parse t of Throws \<Rightarrow> None | Returns v \<Rightarrow> v)))"

definition getPlatformTrends ::
  "(string \<Rightarrow> 'c GenResponse outcome) \<Rightarrow> string \<Rightarrow> 'c Trends" where
  "getPlatformTrends generateContent platform' =
     (case generateContent platform' of
        Throws \<Rightarrow> \<lparr>trends_text = ''Failed to fetch live trends.'', sources = []\<rparr>
      | Returns response \<Rightarrow>
          \<lparr>trends_text =
             (case resp_text response of
                None \<Rightarrow> ''No trend data available.''
              | Some t \<Rightarrow> if t = [] then ''No trend data available.'' else t),
           sources = (case groundingChunks response of None \<Rightarrow> [] | Some cs \<Rightarrow> cs)\<rparr>)"

text \<open>\<^verbatim>\<open>runAudit\<close> of the table stores both results; \<open>None\<close> is \<^verbatim>\<open>null\<close>.\<close>

record ('j, 'c) AuditState =
  isAnalyzing :: bool
  analysis :: "'j option"
  platformTrends :: "'c Trends option"

definition runAudit ::
  "(UserAccount \<Rightarrow> 'c GenResponse outcome) \<Rightarrow> (string \<Rightarrow> 'j option outcome)
     \<Rightarrow> (string \<Rightarrow> 'c GenResponse outcome) \<Rightarrow> UserAccount option
     \<Rightarrow> ('j, 'c) AuditState \<Rightarrow> ('j, 'c) AuditState" where
  "runAudit genAudit JSON_parse genTrends selectedAccount st =
     (case selectedAccount of
        None \<Rightarrow> st
      | Some acc \<Rightarrow>
          st\<lparr>analysis := analyzeAccount genAudit JSON_parse acc,
             platformTrends := Some (getPlatformTrends genTrends (platform_str (platform acc))),
             isAnalyzing := False\<rparr>)"

section \<open>Example records\<close>

text \<open>A record with a given id, archived flag and engagement rate, for the concrete
  instances below.\<close>

definition sampleAccount :: "string \<Rightarrow> bool option \<Rightarrow> real \<Rightarrow> UserAccount" where
  "sampleAccount i arch rate =
     \<lparr>ident = i, username = ''@'' @ i, platform = Twitter, followers = 1200,
      engagementRate = rate, status = Active, lastActive = [], bio = [], category = [],
      avatar = [], realName = None, email = None, password = None, twoFactorSecret = None,
      phone = None, website = None, country = None, tags = None, isFavorite = None,
      isArchived = arch, accountManager = None, targetAudience = None,
      lastPostedDate = None, creationDate = None, notes' = None, history = None\<rparr>"



section \<open>Properties of the selection toggle\<close>

lemma new_Set_aux:
  "distinct s \<Longrightarrow> distinct (foldl set_add s xs) \<and> set (foldl set_add s xs) = set s \<union> set xs"
  by (induction xs arbitrary: s) (auto simp: set_add_def)

lemma set_new_Set: "set (new_Set xs) = set xs"
  using new_Set_aux [of "[]" xs] by (simp add: new_Set_def)

lemma distinct_new_Set: "distinct (new_Set xs)"
  using new_Set_aux [of "[]" xs] by (simp add: new_Set_def)

lemma length_new_Set: "distinct xs \<Longrightarrow> length (new_Set xs) = length xs"
  by (metis distinct_card distinct_new_Set set_new_Set)

text \<open>
  C1, as stated, fails: with only \<open>a\<close> selected on a page showing \<open>a\<close> and \<open>b\<close>, the first
  toggle selects both (the sizes 1 and 2 differ) and the second clears the selection, so
  the selection ends empty and not at its original contents.
\<close>

theorem toggleSelectAll_twice_counterexample:
  "set (toggleSelectAll
          (toggleSelectAll [''a''] [sampleAccount ''a'' None 1, sampleAccount ''b'' None 2])
          [sampleAccount ''a'' None 1, sampleAccount ''b'' None 2])
     \<noteq> set [''a'']"
  by (simp add: toggleSelectAll_def new_Set_def set_add_def sampleAccount_def)

text \<open>
  C1, amended: on a page whose records have distinct ids, toggling select-all twice
  returns the selection set to its original contents exactly when the selection was empty
  or was the set of the page's ids.
\<close>

theorem toggleSelectAll_twice:
  assumes "distinct (map ident page)" and "distinct sel"
  shows "set (toggleSelectAll (toggleSelectAll sel page) page) = set sel
         \<longleftrightarrow> sel = [] \<or> set sel = set (map ident page)"
proof -
  let ?ids = "map ident page"
  have len: "length (new_Set ?ids) = length page"
    using assms(1) length_new_Set by fastforce
  show ?thesis
  proof (cases "length sel = length page")
    case same: True
    show ?thesis
    proof (cases "page = []")
      case True
      with same show ?thesis
        by (simp add: toggleSelectAll_def)
    next
      case False
      with same have "sel \<noteq> []" by auto
      with False same show ?thesis
        by (auto simp: toggleSelectAll_def set_new_Set)
    qed
  next
    case False
    have "set sel \<noteq> set ?ids"
    proof
      assume "set sel = set ?ids"
      then have "card (set sel) = card (set ?ids)" by simp
      then have "length sel = length ?ids"
        using distinct_card [OF assms(1)] distinct_card [OF assms(2)] by metis
      with False show False by simp
    qed
    with False len show ?thesis by (auto simp: toggleSelectAll_def)
  qed
qed

theorem toggleSelectAll_twice_witness:
  "distinct (map ident [sampleAccount ''a'' None 1, sampleAccount ''b'' None 2])
   \<and> distinct ([] :: string list)
   \<and> set (toggleSelectAll
            (toggleSelectAll [] [sampleAccount ''a'' None 1, sampleAccount ''b'' None 2])
            [sampleAccount ''a'' None 1, sampleAccount ''b'' None 2]) = set []"
proof -
  have d: "distinct (map ident [sampleAccount ''a'' None 1, sampleAccount ''b'' None 2])"
    by (simp add: sampleAccount_def)
  have e: "distinct ([] :: string list)" by simp
  show ?thesis
    using d toggleSelectAll_twice [OF d e] by simp
qed

section \<open>Properties of the page count\<close>

lemma totalPages_div: "totalPages v = (length v + 9) div 10"
proof -
  have "real (length v) / real 10 = of_int (int (length v)) / of_int 10" by simp
  then have "\<lceil>real (length v) / real 10\<rceil> = - (- int (length v) div 10)"
    using ceiling_divide_eq_div [of "int (length v)" 10] by simp
  moreover have "nat (- (- int (length v) div 10)) = (length v + 9) div 10"
    by linarith
  ultimately show ?thesis
    by (simp add: totalPages_def ITEMS_PER_PAGE_def)
qed

text \<open>
  C3: for every filtered view and page size 10, the page count of the footer,
  \<^verbatim>\<open>totalPages || 1\<close>, is the larger of 1 and the ceiling of the view's length over 10: it
  is never below 1, it is 1 for an empty view, and for a non-empty view it is that
  ceiling.
\<close>

theorem shown_page_count:
  "int (shownTotalPages v) = max 1 \<lceil>real (length v) / 10\<rceil>
   \<and> 1 \<le> shownTotalPages v
   \<and> shownTotalPages [] = 1
   \<and> (v \<noteq> [] \<longrightarrow> int (shownTotalPages v) = \<lceil>real (length v) / 10\<rceil>)"
proof -
  have c: "int (totalPages v) = \<lceil>real (length v) / 10\<rceil>"
  proof -
    have "(0::int) \<le> \<lceil>real (length v) / 10\<rceil>" by simp
    then show ?thesis by (simp add: totalPages_def ITEMS_PER_PAGE_def)
  qed
  have m: "int (shownTotalPages v) = max 1 (int (totalPages v))"
    by (simp add: shownTotalPages_def max_def)
  have pos: "v \<noteq> [] \<longrightarrow> 1 \<le> totalPages v"
    by (cases v) (simp_all add: totalPages_div)
  have e: "shownTotalPages [] = 1"
    by (simp add: totalPages_div shownTotalPages_def)
  have g: "1 \<le> shownTotalPages v"
    by (simp add: shownTotalPages_def)
  have n: "v \<noteq> [] \<longrightarrow> int (shownTotalPages v) = \<lceil>real (length v) / 10\<rceil>"
    using c pos by (auto simp: shownTotalPages_def)
  from c m e g n show ?thesis by simp
qed

theorem shown_page_count_witness:
  "[sampleAccount ''a'' None 1] \<noteq> []
   \<and> int (shownTotalPages [sampleAccount ''a'' None 1])
       = \<lceil>real (length [sampleAccount ''a'' None 1]) / 10\<rceil>
   \<and> shownTotalPages [sampleAccount ''a'' None 1] = 1"
proof -
  have h: "[sampleAccount ''a'' None 1] \<noteq> []" by simp
  from shown_page_count [of "[sampleAccount ''a'' None 1]"] h
  have r: "int (shownTotalPages [sampleAccount ''a'' None 1])
       = \<lceil>real (length [sampleAccount ''a'' None 1]) / 10\<rceil>" by blast
  have "\<lceil>(1::real) / 10\<rceil> = 1" by (rule ceiling_unique) simp_all
  with r have "shownTotalPages [sampleAccount ''a'' None 1] = 1" by simp
  with h r show ?thesis by blast
qed

section \<open>Properties of the view\<close>

lemma set_insert_cmp: "set (insert_cmp cmp x ys) = insert x (set ys)"
  by (induction ys) auto

lemma set_js_sort: "set (js_sort cmp xs) = set xs"
  unfolding js_sort_def by (induction xs) (auto simp: set_insert_cmp)

lemma set_filteredData:
  "set (filteredData d vm s f sc) \<subseteq> {x \<in> set d. in_view vm x}"
  by (auto simp: filteredData_def Let_def set_js_sort split: option.splits if_splits)

lemma filteredData_plain: "filteredData d vm [] False None = filter (in_view vm) d"
  by (simp add: filteredData_def)

lemma in_view_archived: "in_view ViewArchived x = (\<not> in_view ViewActive x)"
  by (simp add: in_view_def)

text \<open>
  C4: with no search, favourites filter or sort, the active view and the archived view
  partition the collection: their lengths add up to the collection's, no record is in
  both, and every record is in one of them.
\<close>

theorem active_archived_partition:
  "length (filteredData d ViewActive [] False None)
     + length (filteredData d ViewArchived [] False None) = length d
   \<and> set (filteredData d ViewActive [] False None)
       \<inter> set (filteredData d ViewArchived [] False None) = {}
   \<and> set (filteredData d ViewActive [] False None)
       \<union> set (filteredData d ViewArchived [] False None) = set d"
proof -
  have "length (filter (in_view ViewActive) d) + length (filter (in_view ViewArchived) d)
          = length d"
    using sum_length_filter_compl [of "in_view ViewActive" d]
    by (simp add: in_view_archived [abs_def])
  then show ?thesis
    by (auto simp: filteredData_plain in_view_archived)
qed

section \<open>Properties of the sort\<close>

lemma compare_engagement_le:
  "(compareBy (K_engagementRate, Asc) x y \<le> 0) = (engagementRate x \<le> engagementRate y)"
  by (auto simp: compareBy_def Let_def)

lemma insert_cmp_engagement:
  "insert_cmp (compareBy (K_engagementRate, Asc)) x ys = insort_key engagementRate x ys"
  by (induction ys) (simp_all add: compare_engagement_le)

lemma js_sort_engagement:
  "js_sort (compareBy (K_engagementRate, Asc)) xs = sort_key engagementRate xs"
  unfolding js_sort_def sort_key_def by (induction xs) (simp_all add: insert_cmp_engagement)

lemma filteredData_sorted_eq:
  "filteredData d vm s f (Some cfg) = js_sort (compareBy cfg) (filteredData d vm s f None)"
  by (simp add: filteredData_def Let_def)

lemma sorted_nth_strict:
  assumes "sorted (map g v)" "i < length v" "j < length v" "g (v ! i) < g (v ! j)"
  shows "i < j"
proof (rule ccontr)
  assume "\<not> i < j"
  then have "j \<le> i" by simp
  then have "map g v ! j \<le> map g v ! i"
    using assms(1,2) by (simp add: sorted_iff_nth_mono)
  with assms show False by simp
qed

text \<open>
  C9: in the view sorted by engagement rate ascending the rates are in non-decreasing
  order, so a record with rate 4.999 stands before every record with rate 5.0; records
  with equal rates keep the order they had before the sort; and under any sort key a
  record whose field is missing compares exactly as a record whose field is the empty
  string.
\<close>

theorem sort_by_engagement:
  "sorted (map engagementRate (filteredData d vm s f (Some (K_engagementRate, Asc))))
   \<and> (i < length (filteredData d vm s f (Some (K_engagementRate, Asc)))
        \<and> j < length (filteredData d vm s f (Some (K_engagementRate, Asc)))
        \<and> engagementRate (filteredData d vm s f (Some (K_engagementRate, Asc)) ! i) = 4.999
        \<and> engagementRate (filteredData d vm s f (Some (K_engagementRate, Asc)) ! j) = 5.0
      \<longrightarrow> i < j)
   \<and> filter (\<lambda>x. engagementRate x = r) (filteredData d vm s f (Some (K_engagementRate, Asc)))
       = filter (\<lambda>x. engagementRate x = r) (filteredData d vm s f None)
   \<and> (getField k a = None \<and> getField k a' = Some (JStr [])
      \<longrightarrow> compareBy (k, dir) a b = compareBy (k, dir) a' b
          \<and> compareBy (k, dir) b a = compareBy (k, dir) b a')"
proof -
  let ?v = "filteredData d vm s f (Some (K_engagementRate, Asc))"
  have v: "?v = sort_key engagementRate (filteredData d vm s f None)"
    by (simp add: filteredData_sorted_eq js_sort_engagement)
  have srt: "sorted (map engagementRate ?v)" by (simp add: v)
  have stable: "filter (\<lambda>x. engagementRate x = r) ?v
           = filter (\<lambda>x. engagementRate x = r) (filteredData d vm s f None)"
    by (simp add: v sort_key_stable)
  have pos: "i < length ?v \<and> j < length ?v \<and> engagementRate (?v ! i) = 4.999
            \<and> engagementRate (?v ! j) = 5.0 \<longrightarrow> i < j"
  proof (intro impI, elim conjE)
    assume "i < length ?v" "j < length ?v"
      "engagementRate (?v ! i) = 4.999" "engagementRate (?v ! j) = 5.0"
    then show "i < j"
      using sorted_nth_strict [OF srt, of i j] by simp
  qed
  have missing: "getField k a = None \<and> getField k a' = Some (JStr [])
      \<longrightarrow> compareBy (k, dir) a b = compareBy (k, dir) a' b
          \<and> compareBy (k, dir) b a = compareBy (k, dir) b a'"
    by (simp add: compareBy_def)
  from srt pos stable missing show ?thesis by blast
qed

theorem sort_by_engagement_witness:
  "(0::nat) < length (filteredData [sampleAccount ''b'' None 5.0, sampleAccount ''a'' None 4.999]
                 ViewActive [] False (Some (K_engagementRate, Asc)))
   \<and> (1::nat) < length (filteredData [sampleAccount ''b'' None 5.0, sampleAccount ''a'' None 4.999]
                 ViewActive [] False (Some (K_engagementRate, Asc)))
   \<and> engagementRate (filteredData [sampleAccount ''b'' None 5.0, sampleAccount ''a'' None 4.999]
                 ViewActive [] False (Some (K_engagementRate, Asc)) ! 0) = 4.999
   \<and> engagementRate (filteredData [sampleAccount ''b'' None 5.0, sampleAccount ''a'' None 4.999]
                 ViewActive [] False (Some (K_engagementRate, Asc)) ! 1) = 5.0
   \<and> (0::nat) < 1
   \<and> getField K_accountManager (sampleAccount ''a'' None 1) = None
   \<and> getField K_accountManager ((sampleAccount ''a'' None 1)\<lparr>accountManager := Some []\<rparr>)
        = Some (JStr [])
   \<and> compareBy (K_accountManager, Asc) (sampleAccount ''a'' None 1) (sampleAccount ''b'' None 1)
        = compareBy (K_accountManager, Asc)
            ((sampleAccount ''a'' None 1)\<lparr>accountManager := Some []\<rparr>) (sampleAccount ''b'' None 1)"
proof -
  let ?d = "[sampleAccount ''b'' None 5.0, sampleAccount ''a'' None 4.999]"
  let ?v = "filteredData ?d ViewActive [] False (Some (K_engagementRate, Asc))"
  let ?a = "sampleAccount ''a'' None 1"
  have v: "?v = [sampleAccount ''a'' None 4.999, sampleAccount ''b'' None 5.0]"
    by (simp add: filteredData_def in_view_def js_sort_def compareBy_def sampleAccount_def)
  have h1: "0 < length ?v \<and> 1 < length ?v \<and> engagementRate (?v ! 0) = 4.999
              \<and> engagementRate (?v ! 1) = 5.0"
    unfolding v by (simp add: sampleAccount_def)
  have h2: "getField K_accountManager ?a = None
              \<and> getField K_accountManager (?a\<lparr>accountManager := Some []\<rparr>) = Some (JStr [])"
    by (simp add: sampleAccount_def)
  note T = sort_by_engagement [of ?d ViewActive "[]" False 0 1 0 K_accountManager ?a
      "?a\<lparr>accountManager := Some []\<rparr>" Asc "sampleAccount ''b'' None 1"]
  from T h1 have "(0::nat) < 1" by blast
  moreover from T h2 have "compareBy (K_accountManager, Asc) ?a (sampleAccount ''b'' None 1)
        = compareBy (K_accountManager, Asc) (?a\<lparr>accountManager := Some []\<rparr>)
            (sampleAccount ''b'' None 1)" by blast
  ultimately show ?thesis using h1 h2 by blast
qed

section \<open>Properties of the bulk archive\<close>

lemma batch_archive_ok:
  assumes "\<not> commit_rejected env" "set ids \<subseteq> ident ` set docs"
  shows "batch_commit env Archive ids docs = Some (map (batch_update ids True) docs)"
proof -
  have "list_all (\<lambda>i. i \<in> set (map ident docs)) ids"
    using assms(2) by (auto simp: list_all_iff)
  with assms(1) show ?thesis
    by (simp add: batch_commit_def)
qed

lemma fetch_ok:
  "db_ready env \<Longrightarrow> isAuthenticated env \<Longrightarrow> \<not> getDocs_rejected env \<Longrightarrow>
   fetchAccounts env st = st\<lparr>data := store st\<rparr>"
  by (simp add: fetchAccounts_def)

lemma handleBulk_archive:
  assumes "selectedIds t \<noteq> []" "db_ready env" "isAuthenticated env"
    "\<not> commit_rejected env" "\<not> getDocs_rejected env"
    "set (selectedIds t) \<subseteq> ident ` set (store a)"
  shows "handleBulk env c Archive (t, a)
     = (t\<lparr>selectedIds := []\<rparr>,
        a\<lparr>store := map (batch_update (selectedIds t) True) (store a),
          data := map (batch_update (selectedIds t) True) (store a)\<rparr>)"
proof -
  have "handleBulkAction env (selectedIds t) Archive a
      = fetchAccounts env (a\<lparr>store := map (batch_update (selectedIds t) True) (store a)\<rparr>)"
    using assms(2) batch_archive_ok [OF assms(4) assms(6)]
    by (simp add: handleBulkAction_def)
  also have "\<dots> = a\<lparr>store := map (batch_update (selectedIds t) True) (store a),
          data := map (batch_update (selectedIds t) True) (store a)\<rparr>"
    using fetch_ok [OF assms(2) assms(3) assms(5)] by simp
  finally show ?thesis
    using assms(1) by (simp add: handleBulk_def)
qed

lemma ident_batch_update: "ident (batch_update ids flag r) = ident r"
  by (simp add: batch_update_def)

lemma archived_batch_update:
  "ident r \<in> set ids \<Longrightarrow> isArchived (batch_update ids flag r) = Some flag"
  by (simp add: batch_update_def)

lemma archived_views:
  assumes "r \<in> set d" "isArchived r = Some True"
  shows "r \<in> set (filteredData d ViewArchived [] False None)
       \<and> r \<notin> set (filteredData d ViewActive s f sc)"
proof -
  have "r \<in> set (filter (in_view ViewArchived) d)"
    using assms by (simp add: in_view_def)
  moreover have "\<not> in_view ViewActive r"
    using assms(2) by (simp add: in_view_def)
  then have "r \<notin> set (filteredData d ViewActive s f sc)"
    using set_filteredData [of d ViewActive s f sc] by blast
  ultimately show ?thesis by (simp add: filteredData_plain)
qed

text \<open>
  C5: when some ids are selected, the store accepts the batch and the collection is read
  back, a bulk archive leaves the selection empty, the collection equal to the store's
  documents, and every record with a selected id carrying the archived flag: it is in the
  archived view and in no active view. Every selected id still names a record.
\<close>

theorem bulk_archive_refresh:
  assumes "selectedIds t \<noteq> []" and "db_ready env" and "isAuthenticated env"
    and "\<not> commit_rejected env" and "\<not> getDocs_rejected env"
    and "set (selectedIds t) \<subseteq> ident ` set (store a)"
  shows "selectedIds (fst (handleBulk env c Archive (t, a))) = []
    \<and> data (snd (handleBulk env c Archive (t, a))) = store (snd (handleBulk env c Archive (t, a)))
    \<and> map ident (data (snd (handleBulk env c Archive (t, a)))) = map ident (store a)
    \<and> set (selectedIds t) \<subseteq> ident ` set (data (snd (handleBulk env c Archive (t, a))))
    \<and> (\<forall>r \<in> set (data (snd (handleBulk env c Archive (t, a)))).
          ident r \<in> set (selectedIds t) \<longrightarrow>
            isArchived r = Some True
            \<and> r \<in> set (filteredData (data (snd (handleBulk env c Archive (t, a))))
                        ViewArchived [] False None)
            \<and> r \<notin> set (filteredData (data (snd (handleBulk env c Archive (t, a))))
                        ViewActive s f sc))"
proof -
  let ?d = "map (batch_update (selectedIds t) True) (store a)"
  let ?res = "handleBulk env c Archive (t, a)"
  have res: "?res = (t\<lparr>selectedIds := []\<rparr>, a\<lparr>store := ?d, data := ?d\<rparr>)"
    using assms by (rule handleBulk_archive)
  have sel: "selectedIds (fst ?res) = []" by (simp add: res)
  have dat: "data (snd ?res) = ?d" by (simp add: res)
  have sto: "store (snd ?res) = ?d" by (simp add: res)
  have ids: "map ident ?d = map ident (store a)"
    by (simp add: ident_batch_update)
  have arch: "isArchived r = Some True"
    if "r \<in> set ?d" "ident r \<in> set (selectedIds t)" for r
  proof -
    from that(1) obtain r0 where r0: "r0 \<in> set (store a)"
      "r = batch_update (selectedIds t) True r0" by auto
    with that(2) have "ident r0 \<in> set (selectedIds t)" by (simp add: ident_batch_update)
    with r0 show ?thesis by (simp add: archived_batch_update)
  qed
  have "\<forall>r \<in> set ?d. ident r \<in> set (selectedIds t) \<longrightarrow>
            isArchived r = Some True
            \<and> r \<in> set (filteredData ?d ViewArchived [] False None)
            \<and> r \<notin> set (filteredData ?d ViewActive s f sc)"
    using arch archived_views by blast
  moreover have "set (selectedIds t) \<subseteq> ident ` set ?d"
    using assms(6) by (simp add: image_image ident_batch_update)
  ultimately show ?thesis
    using sel ids unfolding dat sto by blast
qed

theorem bulk_archive_refresh_witness:
  "selectedIds (initialTableState\<lparr>selectedIds := [''a'']\<rparr>) \<noteq> []
   \<and> db_ready \<lparr>db_ready = True, isAuthenticated = True, commit_rejected = False,
                 getDocs_rejected = False\<rparr>
   \<and> set (selectedIds (initialTableState\<lparr>selectedIds := [''a'']\<rparr>))
        \<subseteq> ident ` set (store \<lparr>store = [sampleAccount ''a'' None 1, sampleAccount ''b'' None 2],
                                 data = [sampleAccount ''a'' None 1, sampleAccount ''b'' None 2]\<rparr>)
   \<and> selectedIds (fst (handleBulk
          \<lparr>db_ready = True, isAuthenticated = True, commit_rejected = False,
            getDocs_rejected = False\<rparr> False Archive
          (initialTableState\<lparr>selectedIds := [''a'']\<rparr>,
           \<lparr>store = [sampleAccount ''a'' None 1, sampleAccount ''b'' None 2],
            data = [sampleAccount ''a'' None 1, sampleAccount ''b'' None 2]\<rparr>))) = []
   \<and> sampleAccount ''a'' (Some True) 1 \<in> set (data (snd (handleBulk
          \<lparr>db_ready = True, isAuthenticated = True, commit_rejected = False,
            getDocs_rejected = False\<rparr> False Archive
          (initialTableState\<lparr>selectedIds := [''a'']\<rparr>,
           \<lparr>store = [sampleAccount ''a'' None 1, sampleAccount ''b'' None 2],
            data = [sampleAccount ''a'' None 1, sampleAccount ''b'' None 2]\<rparr>))))
   \<and> ident (sampleAccount ''a'' (Some True) 1)
        \<in> set (selectedIds (initialTableState\<lparr>selectedIds := [''a'']\<rparr>))
   \<and> isArchived (sampleAccount ''a'' (Some True) 1) = Some True
   \<and> sampleAccount ''a'' (Some True) 1 \<in> set (filteredData (data (snd (handleBulk
          \<lparr>db_ready = True, isAuthenticated = True, commit_rejected = False,
            getDocs_rejected = False\<rparr> False Archive
          (initialTableState\<lparr>selectedIds := [''a'']\<rparr>,
           \<lparr>store = [sampleAccount ''a'' None 1, sampleAccount ''b'' None 2],
            data = [sampleAccount ''a'' None 1, sampleAccount ''b'' None 2]\<rparr>))))
          ViewArchived [] False None)"
proof -
  let ?env = "\<lparr>db_ready = True, isAuthenticated = True, commit_rejected = False,
                 getDocs_rejected = False\<rparr>"
  let ?t = "initialTableState\<lparr>selectedIds := [''a'']\<rparr>"
  let ?a = "\<lparr>store = [sampleAccount ''a'' None 1, sampleAccount ''b'' None 2],
            data = [sampleAccount ''a'' None 1, sampleAccount ''b'' None 2]\<rparr>"
  let ?r = "sampleAccount ''a'' (Some True) 1"
  have h1: "selectedIds ?t \<noteq> []" by simp
  have h2: "db_ready ?env" by simp
  have h3: "isAuthenticated ?env" by simp
  have h4: "\<not> commit_rejected ?env" by simp
  have h5: "\<not> getDocs_rejected ?env" by simp
  have h6: "set (selectedIds ?t) \<subseteq> ident ` set (store ?a)"
    by (simp add: sampleAccount_def)
  have run: "data (snd (handleBulk ?env False Archive (?t, ?a)))
               = [?r, sampleAccount ''b'' None 2]"
    by (simp add: handleBulk_def handleBulkAction_def batch_commit_def batch_update_def
        fetchAccounts_def sampleAccount_def)
  have mem: "?r \<in> set (data (snd (handleBulk ?env False Archive (?t, ?a))))"
    unfolding run by simp
  have sel: "ident ?r \<in> set (selectedIds ?t)" by (simp add: sampleAccount_def)
  note T = bulk_archive_refresh [OF h1 h2 h3 h4 h5 h6, of False "[]" False None]
  from T mem sel have "isArchived ?r = Some True
     \<and> ?r \<in> set (filteredData (data (snd (handleBulk ?env False Archive (?t, ?a))))
                  ViewArchived [] False None)" by blast
  moreover from T have "selectedIds (fst (handleBulk ?env False Archive (?t, ?a))) = []"
    by blast
  ultimately show ?thesis using h1 h2 h6 mem sel by blast
qed

section \<open>Properties of the entry form\<close>

lemma startsWith_at: "startsWith u ''@'' = (take 1 u = ''@'')"
  by (cases u) auto

text \<open>
  C7: in both modes the username that is submitted is the form's username when that
  starts with \<open>@\<close>, and the form's username with \<open>@\<close> put in front otherwise; \<open>alice\<close>
  is submitted as \<open>@alice\<close> and \<open>@bob\<close> unchanged.
\<close>

theorem username_normalised:
  "f_username (payloadOf (handleSubmit d m now))
     = (if take 1 (f_username (formState m)) = ''@'' then f_username (formState m)
        else ''@'' @ f_username (formState m))
   \<and> f_username (payloadOf (handleSubmit d
        (openAddModal\<lparr>formState := initialFormState\<lparr>f_username := ''alice''\<rparr>\<rparr>) now)) = ''@alice''
   \<and> f_username (payloadOf (handleSubmit d
        (openAddModal\<lparr>formState := initialFormState\<lparr>f_username := ''@bob''\<rparr>\<rparr>) now)) = ''@bob''"
  by (simp add: handleSubmit_def Let_def normalizeUsername_def startsWith_at openAddModal_def)












section \<open>Properties of the AI client\<close>

text \<open>
  C8, as stated, fails. A trend response without text, a failure by the claim's own list,
  gives the text \<open>No trend data available.\<close> and the response's grounding chunks, which
  need not be empty; and an audit response whose text parses, here to the number 42, is
  returned as it is, whatever its shape.
\<close>

theorem ai_failure_counterexample:
  "sources (getPlatformTrends
      (\<lambda>p. Returns \<lparr>resp_text = None, groundingChunks = Some [''https://example.org'']\<rparr>)
      ''Twitter'') \<noteq> []
   \<and> getPlatformTrends
      (\<lambda>p. Returns \<lparr>resp_text = None, groundingChunks = Some [''https://example.org'']\<rparr>)
      ''Twitter''
     = \<lparr>trends_text = ''No trend data available.'', sources = [''https://example.org'']\<rparr>
   \<and> analyzeAccount
        (\<lambda>a. Returns \<lparr>resp_text = Some ''42'', groundingChunks = None :: string list option\<rparr>)
        (\<lambda>t. if t = ''42'' then Returns (Some (42 :: int)) else Throws)
        (sampleAccount ''a'' None 1)
     = Some 42"
  by (simp add: getPlatformTrends_def analyzeAccount_def)

text \<open>
  C8, amended: \<open>analyzeAccount\<close> returns null when the call throws, when the response has
  no text or an empty text, and when the text does not parse; a text that parses is
  returned as parsed. \<open>getPlatformTrends\<close> returns the text
  \<open>Failed to fetch live trends.\<close> with no sources when the call throws; for a response
  without text it returns the text \<open>No trend data available.\<close> with the response's
  grounding chunks, none if the response has none; otherwise the response's text with
  those chunks. Its text is never empty, and what \<open>runAudit\<close> stores from it is never
  null.
\<close>

theorem ai_failure_shapes:
  "(genAudit acc = Throws \<longrightarrow> analyzeAccount genAudit JSON_parse acc = None)
   \<and> (genAudit acc = Returns resp \<and> (resp_text resp = None \<or> resp_text resp = Some [])
        \<longrightarrow> analyzeAccount genAudit JSON_parse acc = None)
   \<and> (genAudit acc = Returns resp \<and> resp_text resp = Some t \<and> t \<noteq> []
        \<and> JSON_parse t = Throws
        \<longrightarrow> analyzeAccount genAudit JSON_parse acc = None)
   \<and> (genAudit acc = Returns resp \<and> resp_text resp = Some t \<and> t \<noteq> []
        \<and> JSON_parse t = Returns v
        \<longrightarrow> analyzeAccount genAudit JSON_parse acc = v)
   \<and> (genTrends p = Throws
        \<longrightarrow> getPlatformTrends genTrends p
              = \<lparr>trends_text = ''Failed to fetch live trends.'', sources = []\<rparr>)
   \<and> (genTrends p = Returns tresp \<and> (resp_text tresp = None \<or> resp_text tresp = Some [])
        \<longrightarrow> getPlatformTrends genTrends p
              = \<lparr>trends_text = ''No trend data available.'',
                 sources = (case groundingChunks tresp of None \<Rightarrow> [] | Some cs \<Rightarrow> cs)\<rparr>)
   \<and> (genTrends p = Returns tresp \<and> resp_text tresp = Some tt \<and> tt \<noteq> []
        \<longrightarrow> getPlatformTrends genTrends p
              = \<lparr>trends_text = tt,
                 sources = (case groundingChunks tresp of None \<Rightarrow> [] | Some cs \<Rightarrow> cs)\<rparr>)
   \<and> trends_text (getPlatformTrends genTrends p) \<noteq> []
   \<and> platformTrends (runAudit genAudit JSON_parse genTrends (Some acc) st) \<noteq> None"
proof -
  have a1: "genAudit acc = Throws \<longrightarrow> analyzeAccount genAudit JSON_parse acc = None"
    by (simp add: analyzeAccount_def)
  have a2: "genAudit acc = Returns resp \<and> (resp_text resp = None \<or> resp_text resp = Some [])
        \<longrightarrow> analyzeAccount genAudit JSON_parse acc = None"
    by (auto simp: analyzeAccount_def)
  have a3: "genAudit acc = Returns resp \<and> resp_text resp = Some t \<and> t \<noteq> []
        \<and> JSON_parse t = Throws
        \<longrightarrow> analyzeAccount genAudit JSON_parse acc = None"
    by (simp add: analyzeAccount_def)
  have a4: "genAudit acc = Returns resp \<and> resp_text resp = Some t \<and> t \<noteq> []
        \<and> JSON_parse t = Returns v
        \<longrightarrow> analyzeAccount genAudit JSON_parse acc = v"
    by (simp add: analyzeAccount_def)
  have t1: "genTrends p = Throws
        \<longrightarrow> getPlatformTrends genTrends p
              = \<lparr>trends_text = ''Failed to fetch live trends.'', sources = []\<rparr>"
    by (simp add: getPlatformTrends_def)
  have t2: "genTrends p = Returns tresp \<and> (resp_text tresp = None \<or> resp_text tresp = Some [])
        \<longrightarrow> getPlatformTrends genTrends p
              = \<lparr>trends_text = ''No trend data available.'',
                 sources = (case groundingChunks tresp of None \<Rightarrow> [] | Some cs \<Rightarrow> cs)\<rparr>"
    by (auto simp: getPlatformTrends_def)
  have t3: "genTrends p = Returns tresp \<and> resp_text tresp = Some tt \<and> tt \<noteq> []
        \<longrightarrow> getPlatformTrends genTrends p
              = \<lparr>trends_text = tt,
                 sources = (case groundingChunks tresp of None \<Rightarrow> [] | Some cs \<Rightarrow> cs)\<rparr>"
    by (simp add: getPlatformTrends_def)
  have t4: "trends_text (getPlatformTrends genTrends p) \<noteq> []"
    by (simp add: getPlatformTrends_def split: outcome.splits option.splits)
  have t5: "platformTrends (runAudit genAudit JSON_parse genTrends (Some acc) st) \<noteq> None"
    by (simp add: runAudit_def)
  from a1 a2 a3 a4 t1 t2 t3 t4 t5 show ?thesis by blast
qed

theorem ai_failure_shapes_witness:
  "analyzeAccount (\<lambda>a. Throws :: string GenResponse outcome)
      (\<lambda>t. Throws :: int option outcome) (sampleAccount ''a'' None 1) = None
   \<and> analyzeAccount
        (\<lambda>a. Returns \<lparr>resp_text = Some [], groundingChunks = None :: string list option\<rparr>)
        (\<lambda>t. Throws :: int option outcome) (sampleAccount ''a'' None 1) = None
   \<and> analyzeAccount
        (\<lambda>a. Returns \<lparr>resp_text = Some ''{oops'', groundingChunks = None :: string list option\<rparr>)
        (\<lambda>t. Throws :: int option outcome) (sampleAccount ''a'' None 1) = None
   \<and> analyzeAccount
        (\<lambda>a. Returns \<lparr>resp_text = Some ''42'', groundingChunks = None :: string list option\<rparr>)
        (\<lambda>t. Returns (Some (42 :: int))) (sampleAccount ''a'' None 1) = Some 42
   \<and> getPlatformTrends (\<lambda>p. Throws :: string GenResponse outcome) ''Twitter''
       = \<lparr>trends_text = ''Failed to fetch live trends.'', sources = []\<rparr>
   \<and> getPlatformTrends
        (\<lambda>p. Returns \<lparr>resp_text = None, groundingChunks = Some [''https://example.org'']\<rparr>)
        ''Twitter''
       = \<lparr>trends_text = ''No trend data available.'', sources = [''https://example.org'']\<rparr>
   \<and> getPlatformTrends
        (\<lambda>p. Returns \<lparr>resp_text = Some ''Short videos'', groundingChunks = None :: string list option\<rparr>)
        ''Twitter''
       = \<lparr>trends_text = ''Short videos'', sources = []\<rparr>"
proof -
  let ?acc = "sampleAccount ''a'' None 1"
  let ?st = "\<lparr>isAnalyzing = True, analysis = None :: int option,
              platformTrends = None :: string Trends option\<rparr>"
  let ?thr = "\<lambda>a :: UserAccount. Throws :: string GenResponse outcome"
  let ?pthr = "\<lambda>t :: string. Throws :: int option outcome"
  let ?tthr = "\<lambda>p :: string. Throws :: string GenResponse outcome"
  let ?r0 = "\<lparr>resp_text = Some [], groundingChunks = None :: string list option\<rparr>"
  let ?r1 = "\<lparr>resp_text = Some ''{oops'', groundingChunks = None :: string list option\<rparr>"
  let ?r2 = "\<lparr>resp_text = Some ''42'', groundingChunks = None :: string list option\<rparr>"
  let ?r3 = "\<lparr>resp_text = None, groundingChunks = Some [''https://example.org'']\<rparr>"
  let ?r4 = "\<lparr>resp_text = Some ''Short videos'', groundingChunks = None :: string list option\<rparr>"
  have c1: "analyzeAccount ?thr ?pthr ?acc = None"
    using ai_failure_shapes [of ?thr ?acc ?pthr ?r0 "[]" None ?tthr "''Twitter''" ?r3 "[]" ?st]
    by simp
  have c2: "analyzeAccount (\<lambda>a. Returns ?r0) ?pthr ?acc = None"
    using ai_failure_shapes [of "\<lambda>a. Returns ?r0" ?acc ?pthr ?r0 "[]" None ?tthr "''Twitter''" ?r3 "[]" ?st]
    by simp
  have c3: "analyzeAccount (\<lambda>a. Returns ?r1) ?pthr ?acc = None"
    using ai_failure_shapes [of "\<lambda>a. Returns ?r1" ?acc ?pthr ?r1 "''{oops''" None ?tthr "''Twitter''" ?r3 "[]" ?st]
    by simp
  have c4: "analyzeAccount (\<lambda>a. Returns ?r2) (\<lambda>t. Returns (Some (42::int))) ?acc = Some 42"
    using ai_failure_shapes [of "\<lambda>a. Returns ?r2" ?acc "\<lambda>t. Returns (Some (42::int))" ?r2 "''42''"
        "Some 42" ?tthr "''Twitter''" ?r3 "[]" ?st]
    by simp
  have c5: "getPlatformTrends ?tthr ''Twitter''
       = \<lparr>trends_text = ''Failed to fetch live trends.'', sources = []\<rparr>"
    using ai_failure_shapes [of ?thr ?acc ?pthr ?r0 "[]" None ?tthr "''Twitter''" ?r3 "[]" ?st]
    by simp
  have c6: "getPlatformTrends (\<lambda>p. Returns ?r3) ''Twitter''
       = \<lparr>trends_text = ''No trend data available.'', sources = [''https://example.org'']\<rparr>"
    using ai_failure_shapes [of ?thr ?acc ?pthr ?r0 "[]" None "\<lambda>p. Returns ?r3" "''Twitter''" ?r3 "[]" ?st]
    by simp
  have c7: "getPlatformTrends (\<lambda>p. Returns ?r4) ''Twitter''
       = \<lparr>trends_text = ''Short videos'', sources = []\<rparr>"
    using ai_failure_shapes [of ?thr ?acc ?pthr ?r0 "[]" None "\<lambda>p. Returns ?r4" "''Twitter''" ?r4
        "''Short videos''" ?st]
    by simp
  from c1 c2 c3 c4 c5 c6 c7 show ?thesis by blast
qed

section \<open>Properties of the export\<close>



end
